theory Spec2Isabelle
  imports Main "HOL-Library.Word"
begin

section \<open>The SSH proxy of tssh (package sshproxy)\<close>

text \<open>
  The proxy accepts inbound SSH connections, dials an outbound SSH client during
  public-key authentication, keeps the client in the per-connection context, and bridges
  every accepted channel to a channel opened on that client.

  The SSH engine (gliderlabs/ssh, x/crypto/ssh) and the network are outside the program.
  Every call into them is recorded as an \<open>event\<close> in the \<open>trace\<close> of the world, in the
  order the program performs it, and what the call returns is taken from an environment
  \<open>env\<close>. Goroutines and the \<open>select\<close> loop are run under an explicit schedule.
\<close>

subsection \<open>Handles and plain data\<close>

type_synonym client = nat    \<comment> \<open>a non-nil \<open>*gossh.Client\<close>\<close>
type_synonym conn = nat      \<comment> \<open>a \<open>net.Conn\<close>\<close>
type_synonym channel = nat   \<comment> \<open>a \<open>gossh.Channel\<close>\<close>
type_synonym bytes = "8 word list"
type_synonym error = string  \<comment> \<open>an error, as its message (\<open>%v\<close>)\<close>

definition tailscaleDevice :: string where
  "tailscaleDevice = ''tailscaleDevice''"

definition sshContextSSHClient :: string where
  "sshContextSSHClient = ''sshClient''"

definition defaultSSHPort :: string where
  "defaultSSHPort = ''22''"

subsection \<open>Go channels\<close>

text \<open>
  A channel made by \<open>make(chan T, n)\<close>: its capacity, the values buffered in it, and the
  number of receivers parked on it. A send hands the value to a parked receiver if there
  is one, else buffers it if there is room, else it blocks (\<open>None\<close>). A receive inside a
  \<open>select\<close> is ready when a value is buffered.
\<close>

record 'a chan =
  chan_cap :: nat
  chan_buf :: "'a list"
  chan_recvq :: nat

definition make_chan :: "nat \<Rightarrow> 'a chan" where
  "make_chan n = \<lparr>chan_cap = n, chan_buf = [], chan_recvq = 0\<rparr>"

definition chan_send :: "'a \<Rightarrow> 'a chan \<Rightarrow> 'a chan option" where
  "chan_send v c =
     (if 0 < chan_recvq c then Some (c\<lparr>chan_recvq := chan_recvq c - 1\<rparr>)
      else if length (chan_buf c) < chan_cap c then Some (c\<lparr>chan_buf := chan_buf c @ [v]\<rparr>)
      else None)"

definition chan_recv :: "'a chan \<Rightarrow> ('a \<times> 'a chan) option" where
  "chan_recv c =
     (case chan_buf c of [] \<Rightarrow> None | v # vs \<Rightarrow> Some (v, c\<lparr>chan_buf := vs\<rparr>))"

definition chan_park_receiver :: "'a chan \<Rightarrow> 'a chan" where
  "chan_park_receiver c = c\<lparr>chan_recvq := chan_recvq c + 1\<rparr>"

subsection \<open>The proxy and its constructor\<close>

datatype handler = Method_proxyAuthCallback | Method_connCallback | Method_channelHandler

record Server =
  Addr :: string
  MaxTimeout :: int
  IdleTimeout :: int
  Version :: string
  PublicKeyHandler :: "handler option"
  ConnCallback :: "handler option"
  ChannelHandlers :: "string \<rightharpoonup> handler"

record SSHProxy =
  server :: Server
  hostname :: string
  shutdownC :: "unit chan"
  caCert :: "bytes option"
  errorChan :: "error chan"

text \<open>
  \<open>New\<close> of the \<open>!windows\<close> build. \<open>goos\<close> is \<open>runtime.GOOS\<close>. The result is the pair
  (\<open>*SSHProxy\<close>, \<open>error\<close>), \<open>None\<close> standing for \<open>nil\<close>. \<open>hostKeyDir\<close> is not used, and
  \<open>caCert\<close> keeps its zero value.
\<close>

definition New ::
  "string \<Rightarrow> string \<Rightarrow> string \<Rightarrow> string \<Rightarrow> string \<Rightarrow> unit chan \<Rightarrow> int \<Rightarrow> int
     \<Rightarrow> SSHProxy option \<times> error option" where
  "New goos version localAddress hostname' hostKeyDir shutdownC' idleTimeout maxTimeout =
     (let sshProxy = \<lparr>server = \<lparr>Addr = localAddress,
                                  MaxTimeout = maxTimeout,
                                  IdleTimeout = idleTimeout,
                                  Version = ''SSH-2.0-tssh_'' @ version @ ''_'' @ goos,
                                  PublicKeyHandler = Some Method_proxyAuthCallback,
                                  ConnCallback = Some Method_connCallback,
                                  ChannelHandlers = [''default'' \<mapsto> Method_channelHandler]\<rparr>,
                      hostname = hostname',
                      shutdownC = shutdownC',
                      caCert = None,
                      errorChan = make_chan 0\<rparr>
      in (Some sshProxy, None))"

text \<open>
  \<open>New\<close> of the \<open>windows\<close> build (sshproxy\_windows.go): a stub of another type,
  \<open>*SSHServer\<close>, that ignores its arguments.
\<close>

datatype SSHServer = SSHServer

definition New_windows ::
  "string \<Rightarrow> string \<Rightarrow> string \<Rightarrow> string \<Rightarrow> unit chan \<Rightarrow> int \<Rightarrow> int
     \<Rightarrow> SSHServer option \<times> error option" where
  "New_windows version localAddress hostname' hostKeyDir shutdownC' idleTimeout maxTimeout =
     (None, Some ''ssh proxy is not supported on windows'')"

subsection \<open>The connection context, the events and the world\<close>

text \<open>
  A value stored in \<open>ssh.Context\<close> under a string key: a string, or a \<open>*gossh.Client\<close>
  (\<open>None\<close> is the nil pointer). \<open>User()\<close>, \<open>ClientVersion()\<close> and \<open>ServerVersion()\<close> are
  the context's own accessors.
\<close>

datatype ctx_value = VString string | VClient "client option"

record ssh_context =
  ctx_values :: "string \<rightharpoonup> ctx_value"
  ctx_User :: string
  ctx_ClientVersion :: string
  ctx_ServerVersion :: string

datatype host_key_policy = InsecureIgnoreHostKey

datatype auth_method = PublicKeys "bytes option list"

record client_config =
  User :: string
  HostKeyCallback :: host_key_policy
  Auth :: "auth_method list"
  ClientVersion :: string

record new_channel =
  ChannelType :: string
  ExtraData :: bytes

record request =
  Type :: string
  WantReply :: bool
  Payload :: bytes

datatype rejection_reason = Prohibited | ConnectionFailed | UnknownChannelType | ResourceShortage

text \<open>
  The tasks working on one channel pair: the handler's own task, which runs the \<open>select\<close>
  loop, and the four goroutines that run \<open>io.Copy\<close>.
\<close>

datatype copier = Primary_r2l | Primary_l2r | Stderr_l2r | Stderr_r2l

datatype task = Main | Copy copier

datatype event =
    EvDial string string client_config
  | EvClientClose client
  | EvConnClose conn
  | EvReject new_channel rejection_reason string
  | EvAccept new_channel
  | EvOpenChannel client string bytes
  | EvChannelClose channel
  | EvSendRequest channel string bool bytes
  | EvReply request bool "bytes option"
  | EvErrorSent error
  | EvDonePosted task

record world =
  proxy :: SSHProxy
  ctx :: ssh_context
  trace :: "event list"

text \<open>What the calls into the SSH engine and the network return.\<close>

record env =
  dial_result :: "string \<Rightarrow> string \<Rightarrow> client_config \<Rightarrow> error + client"
  client_close_result :: "client \<Rightarrow> error option"
  conn_close_result :: "conn \<Rightarrow> error option"
  reject_result :: "new_channel \<Rightarrow> error option"
  accept_result :: "new_channel \<Rightarrow> error + channel"
  open_channel_result :: "client \<Rightarrow> string \<Rightarrow> bytes \<Rightarrow> error + channel"
  channel_close_result :: "channel \<Rightarrow> error option"
  send_result :: "channel \<Rightarrow> request \<Rightarrow> error option"
  peer_reply :: "channel \<Rightarrow> request \<Rightarrow> error + bool"
  ack_result :: "request \<Rightarrow> error option"

text \<open>
  How a task's call ends: it returns a value, it is parked (in a send on the error channel,
  or in the \<open>select\<close> with nothing ready), or it panics.
\<close>

datatype wait = Wait_errorChan | Wait_select

datatype 'a outcome = Returns 'a world | Blocks wait world | Panics world

fun outcome_world :: "'a outcome \<Rightarrow> world" where
  "outcome_world (Returns v w) = w"
| "outcome_world (Blocks b w) = w"
| "outcome_world (Panics w) = w"

definition emit :: "event \<Rightarrow> world \<Rightarrow> world" where
  "emit e w = w\<lparr>trace := trace w @ [e]\<rparr>"

definition ctx_Value :: "string \<Rightarrow> world \<Rightarrow> ctx_value option" where
  "ctx_Value k w = ctx_values (ctx w) k"

definition ctx_SetValue :: "string \<Rightarrow> ctx_value \<Rightarrow> world \<Rightarrow> world" where
  "ctx_SetValue k v w = w\<lparr>ctx := (ctx w)\<lparr>ctx_values := (ctx_values (ctx w))(k \<mapsto> v)\<rparr>\<rparr>"

text \<open>The type assertions \<open>v.(string)\<close> and \<open>v.(*gossh.Client)\<close> in their two-result form.\<close>

fun as_string :: "ctx_value option \<Rightarrow> string \<times> bool" where
  "as_string (Some (VString s)) = (s, True)"
| "as_string _ = ([], False)"

fun as_client :: "ctx_value option \<Rightarrow> client option \<times> bool" where
  "as_client (Some (VClient c)) = (c, True)"
| "as_client _ = (None, False)"

text \<open>\<open>s.errorChan <- msg\<close>: a plain send, with no \<open>select\<close> and no \<open>default\<close>.\<close>

definition post_error :: "error \<Rightarrow> world \<Rightarrow> unit outcome" where
  "post_error msg w =
     (case chan_send msg (errorChan (proxy w)) of
        None \<Rightarrow> Blocks Wait_errorChan w
      | Some c \<Rightarrow> Returns () (emit (EvErrorSent msg) (w\<lparr>proxy := (proxy w)\<lparr>errorChan := c\<rparr>\<rparr>)))"

text \<open>A consumer starts a receive on \<open>Errors()\<close>.\<close>

definition Errors_receive :: "world \<Rightarrow> world" where
  "Errors_receive w = w\<lparr>proxy := (proxy w)\<lparr>errorChan := chan_park_receiver (errorChan (proxy w))\<rparr>\<rparr>"

subsection \<open>Closing the wrapped connection\<close>

definition Client_Close :: "env \<Rightarrow> client \<Rightarrow> world \<Rightarrow> error option \<times> world" where
  "Client_Close E cl w = (client_close_result E cl, emit (EvClientClose cl) w)"

definition Conn_Close :: "env \<Rightarrow> conn \<Rightarrow> world \<Rightarrow> error option \<times> world" where
  "Conn_Close E c w = (conn_close_result E c, emit (EvConnClose c) w)"

record sshConn =
  Conn :: conn
  cleanupFunc :: "world \<Rightarrow> world"

definition sshConn_Close :: "env \<Rightarrow> sshConn \<Rightarrow> world \<Rightarrow> error option \<times> world" where
  "sshConn_Close E c w = (let w1 = cleanupFunc c w in Conn_Close E (Conn c) w1)"

text \<open>
  \<open>connCallback\<close>: stores the empty string under \<open>tailscaleDevice\<close> and wraps the
  connection with the closure \<open>cleanupFunc\<close>, which reads the context when it is called.
  The closure drops what \<open>client.Close()\<close> returns. The 10 ms sleep is not modelled.
\<close>

definition connCallback_cleanupFunc :: "env \<Rightarrow> world \<Rightarrow> world" where
  "connCallback_cleanupFunc E w =
     (case as_client (ctx_Value sshContextSSHClient w) of
        (client, ok) \<Rightarrow>
          (case client of
             Some cl \<Rightarrow> if ok then snd (Client_Close E cl w) else w
           | None \<Rightarrow> w))"

definition connCallback :: "env \<Rightarrow> conn \<Rightarrow> world \<Rightarrow> sshConn \<times> world" where
  "connCallback E c w =
     (let w1 = ctx_SetValue tailscaleDevice (VString []) w
      in (\<lparr>Conn = c, cleanupFunc = connCallback_cleanupFunc E\<rparr>, w1))"

subsection \<open>Authentication: dialling the destination\<close>

definition dialDestination :: "env \<Rightarrow> world \<Rightarrow> (error + client) \<times> world" where
  "dialDestination E w =
     (let signer = None in
      case as_string (ctx_Value tailscaleDevice w) of
        (tailscaleServer, ok) \<Rightarrow>
          if \<not> ok \<and> tailscaleServer = [] then (Inl ''failed to connect to server'', w)
          else
            (let clientConfig = \<lparr>User = ctx_User (ctx w),
                                 HostKeyCallback = InsecureIgnoreHostKey,
                                 Auth = [PublicKeys [signer]],
                                 ClientVersion = ctx_ServerVersion (ctx w)\<rparr>;
                 w1 = emit (EvDial ''tcp'' tailscaleServer clientConfig) w
             in case dial_result E ''tcp'' tailscaleServer clientConfig of
                  Inl err \<Rightarrow> (Inl (err @ '' failed to connect to destination SSH server''), w1)
                | Inr client \<Rightarrow> (Inr client, w1)))"

definition proxyAuthCallback :: "env \<Rightarrow> bytes \<Rightarrow> world \<Rightarrow> bool \<times> world" where
  "proxyAuthCallback E key w =
     (case dialDestination E w of
        (Inl err, w1) \<Rightarrow> (False, w1)
      | (Inr client, w1) \<Rightarrow> (True, ctx_SetValue sshContextSSHClient (VClient (Some client)) w1))"

subsection \<open>Forwarding one request\<close>

text \<open>
  The two calls of x/crypto/ssh that \<open>forwardChannelRequest\<close> makes.
  \<open>Channel.SendRequest\<close> sends the request and, only if a reply was asked for, waits for
  the peer's answer, of which it reports the success flag; without a reply it reports
  \<open>false\<close>. \<open>Request.Reply\<close> does nothing when the request did not want a reply.
\<close>

definition Channel_SendRequest ::
  "env \<Rightarrow> channel \<Rightarrow> string \<Rightarrow> bool \<Rightarrow> bytes \<Rightarrow> world \<Rightarrow> (error + bool) \<times> world" where
  "Channel_SendRequest E ch name wantReply payload w =
     (let rq = \<lparr>Type = name, WantReply = wantReply, Payload = payload\<rparr>;
          w1 = emit (EvSendRequest ch name wantReply payload) w
      in case send_result E ch rq of
           Some err \<Rightarrow> (Inl err, w1)
         | None \<Rightarrow> if wantReply then (peer_reply E ch rq, w1) else (Inr False, w1))"

definition Request_Reply ::
  "env \<Rightarrow> request \<Rightarrow> bool \<Rightarrow> bytes option \<Rightarrow> world \<Rightarrow> error option \<times> world" where
  "Request_Reply E req ok payload w =
     (if \<not> WantReply req then (None, w)
      else (ack_result E req, emit (EvReply req ok payload) w))"

definition forwardChannelRequest ::
  "env \<Rightarrow> channel \<Rightarrow> request \<Rightarrow> world \<Rightarrow> error option \<times> world" where
  "forwardChannelRequest E sshChan req w =
     (case Channel_SendRequest E sshChan (Type req) (WantReply req) (Payload req) w of
        (Inl err, w1) \<Rightarrow> (Some (err @ '' failed to send request''), w1)
      | (Inr reply, w1) \<Rightarrow>
          (case Request_Reply E req reply None w1 of
             (Some err, w2) \<Rightarrow> (Some (err @ '' failed to reply to request''), w2)
           | (None, w2) \<Rightarrow> (None, w2)))"

subsection \<open>The stream bridge\<close>

text \<open>
  Where a task of the bridge stands: a goroutine is inside \<open>io.Copy\<close>, about to send
  its error on the error channel, or about to post on \<open>done\<close>; the main task is in the
  \<open>select\<close>, or about to send the forwarding error; \<open>Exited\<close> is a goroutine that ended
  and a loop that returned.
\<close>

datatype pc = Not_started | Copying | Send_error error | Send_done | Selecting | Exited

record bridge =
  done_c :: "unit chan"
  pcs :: "task \<Rightarrow> pc"

text \<open>
  What the scheduler and the peers decide: an \<open>io.Copy\<close> returns, a task parked before a
  send tries it, the \<open>select\<close> takes one of its three cases (a request received as
  \<open>None\<close> is the nil request of a closed stream), a consumer receives on \<open>Errors()\<close>.
\<close>

datatype sched_event =
    Copy_returns copier "error option"
  | Step task
  | Select_localChanReqs "request option"
  | Select_remoteChanReqs "request option"
  | Select_done
  | Consumer_receives

definition set_pc :: "task \<Rightarrow> pc \<Rightarrow> bridge \<Rightarrow> bridge" where
  "set_pc t p b = b\<lparr>pcs := (pcs b)(t := p)\<rparr>"

definition proxyStreams :: "bridge \<Rightarrow> bridge" where
  "proxyStreams b = set_pc (Copy Primary_l2r) Copying (set_pc (Copy Primary_r2l) Copying b)"

definition proxyStderrStreams :: "bridge \<Rightarrow> bridge" where
  "proxyStderrStreams b = set_pc (Copy Stderr_r2l) Copying (set_pc (Copy Stderr_l2r) Copying b)"

fun copy_error :: "copier \<Rightarrow> error \<Rightarrow> error" where
  "copy_error Primary_r2l err = ''remote to local copy error: '' @ err"
| "copy_error Primary_l2r err = ''local to remote copy error: '' @ err"
| "copy_error Stderr_l2r err = ''stderr local to remote copy error: '' @ err"
| "copy_error Stderr_r2l err = ''stderr remote to local copy error: '' @ err"

text \<open>Only the goroutines of \<open>proxyStreams\<close> end with \<open>done <- struct{}{}\<close>.\<close>

fun after_copy :: "copier \<Rightarrow> pc" where
  "after_copy Primary_r2l = Send_done"
| "after_copy Primary_l2r = Send_done"
| "after_copy Stderr_l2r = Exited"
| "after_copy Stderr_r2l = Exited"

fun after_report :: "task \<Rightarrow> pc" where
  "after_report Main = Exited"
| "after_report (Copy c) = after_copy c"

text \<open>One request taken by the \<open>select\<close>, to be forwarded to the channel \<open>target\<close>.\<close>

definition loop_request ::
  "env \<Rightarrow> channel \<Rightarrow> request option \<Rightarrow> bridge \<times> world \<Rightarrow> bridge \<times> world" where
  "loop_request E target rq bw =
     (case bw of (b, w) \<Rightarrow>
        (case rq of
           None \<Rightarrow> (set_pc Main Exited b, w)
         | Some req \<Rightarrow>
             (case forwardChannelRequest E target req w of
                (Some err, w1) \<Rightarrow>
                  (set_pc Main (Send_error (''failed to forward request: '' @ err)) b, w1)
              | (None, w1) \<Rightarrow> (b, w1))))"

fun bridge_step ::
  "env \<Rightarrow> channel \<Rightarrow> channel \<Rightarrow> sched_event \<Rightarrow> bridge \<times> world \<Rightarrow> bridge \<times> world" where
  "bridge_step E localChan remoteChan (Copy_returns c err) (b, w) =
     (if pcs b (Copy c) = Copying
      then (set_pc (Copy c)
              (case err of Some e \<Rightarrow> Send_error (copy_error c e) | None \<Rightarrow> after_copy c) b, w)
      else (b, w))"
| "bridge_step E localChan remoteChan (Step t) (b, w) =
     (case pcs b t of
        Send_error m \<Rightarrow>
          (case post_error m w of
             Returns u w1 \<Rightarrow> (set_pc t (after_report t) b, w1)
           | Blocks k w1 \<Rightarrow> (b, w)
           | Panics w1 \<Rightarrow> (b, w))
      | Send_done \<Rightarrow>
          (case chan_send () (done_c b) of
             Some d \<Rightarrow> (set_pc t Exited (b\<lparr>done_c := d\<rparr>), emit (EvDonePosted t) w)
           | None \<Rightarrow> (b, w))
      | Not_started \<Rightarrow> (b, w)
      | Copying \<Rightarrow> (b, w)
      | Selecting \<Rightarrow> (b, w)
      | Exited \<Rightarrow> (b, w))"
| "bridge_step E localChan remoteChan (Select_localChanReqs rq) (b, w) =
     (if pcs b Main = Selecting then loop_request E remoteChan rq (b, w) else (b, w))"
| "bridge_step E localChan remoteChan (Select_remoteChanReqs rq) (b, w) =
     (if pcs b Main = Selecting then loop_request E localChan rq (b, w) else (b, w))"
| "bridge_step E localChan remoteChan Select_done (b, w) =
     (if pcs b Main = Selecting
      then (case chan_recv (done_c b) of
              Some (u, d) \<Rightarrow> (set_pc Main Exited (b\<lparr>done_c := d\<rparr>), w)
            | None \<Rightarrow> (b, w))
      else (b, w))"
| "bridge_step E localChan remoteChan Consumer_receives (b, w) = (b, Errors_receive w)"


text \<open>
  \<open>proxyChannelStreams\<close>, the \<open>for { select { ... } }\<close> loop, seen from the main task:
  it returns once the main task has left the loop, and it is parked when the schedule
  ends before that. The result carries the bridge and the events not yet consumed, for
  the goroutines that go on after the return.
\<close>

fun proxyChannelStreams ::
  "env \<Rightarrow> channel \<Rightarrow> channel \<Rightarrow> sched_event list \<Rightarrow> bridge \<times> world
     \<Rightarrow> (bridge \<times> sched_event list) outcome" where
  "proxyChannelStreams E localChan remoteChan [] (b, w) =
     (case pcs b Main of
        Exited \<Rightarrow> Returns (b, []) w
      | Send_error m \<Rightarrow> Blocks Wait_errorChan w
      | Not_started \<Rightarrow> Blocks Wait_select w
      | Copying \<Rightarrow> Blocks Wait_select w
      | Send_done \<Rightarrow> Blocks Wait_select w
      | Selecting \<Rightarrow> Blocks Wait_select w)"
| "proxyChannelStreams E localChan remoteChan (ev # evs) (b, w) =
     (if pcs b Main = Exited then Returns (b, ev # evs) w
      else proxyChannelStreams E localChan remoteChan evs
             (bridge_step E localChan remoteChan ev (b, w)))"

text \<open>
  \<open>proxyChannel\<close>: \<open>done := make(chan struct{}, 2)\<close>, the four goroutines, the loop.
  (The source passes \<open>remoteChan\<close> where the loop expects \<open>remoteChanReqs\<close>; here the
  requests that the loop receives are those of the schedule.)
\<close>

definition bridge_init :: bridge where
  "bridge_init = \<lparr>done_c = make_chan 2, pcs = (\<lambda>t. Not_started)\<rparr>"

definition proxyChannel_start :: bridge where
  "proxyChannel_start = set_pc Main Selecting (proxyStderrStreams (proxyStreams bridge_init))"

definition proxyChannel ::
  "env \<Rightarrow> channel \<Rightarrow> channel \<Rightarrow> sched_event list \<Rightarrow> world
     \<Rightarrow> (bridge \<times> sched_event list) outcome" where
  "proxyChannel E localChan remoteChan sched w =
     proxyChannelStreams E localChan remoteChan sched (proxyChannel_start, w)"

subsection \<open>Accepting a channel\<close>

definition Channel_Close :: "env \<Rightarrow> channel \<Rightarrow> world \<Rightarrow> error option \<times> world" where
  "Channel_Close E ch w = (channel_close_result E ch, emit (EvChannelClose ch) w)"

text \<open>\<open>defer ch.Close()\<close>: runs when the function returns or panics, not while it is parked.\<close>

fun deferred_Close :: "env \<Rightarrow> channel \<Rightarrow> 'a outcome \<Rightarrow> 'a outcome" where
  "deferred_Close E ch (Returns v w) = Returns v (snd (Channel_Close E ch w))"
| "deferred_Close E ch (Panics w) = Panics (snd (Channel_Close E ch w))"
| "deferred_Close E ch (Blocks k w) = Blocks k w"

fun forget_result :: "'a outcome \<Rightarrow> unit outcome" where
  "forget_result (Returns v w) = Returns () w"
| "forget_result (Blocks k w) = Blocks k w"
| "forget_result (Panics w) = Panics w"

definition channelHandler :: "env \<Rightarrow> new_channel \<Rightarrow> sched_event list \<Rightarrow> world \<Rightarrow> unit outcome" where
  "channelHandler E newChan sched w =
     (if ChannelType newChan \<noteq> ''session'' \<and> ChannelType newChan \<noteq> ''direct-tcpip''
      then
        (let msg = ''channel type '' @ ChannelType newChan @ '' is not supported'';
             w1 = emit (EvReject newChan UnknownChannelType msg) w
         in case reject_result E newChan of
              Some err \<Rightarrow> post_error (''error rejecting SSH channel: '' @ err) w1
            | None \<Rightarrow> Returns () w1)
      else
        (let w1 = emit (EvAccept newChan) w
         in case accept_result E newChan of
              Inl err \<Rightarrow> post_error (''failed to accept session channel: '' @ err) w1
            | Inr localChan \<Rightarrow>
                deferred_Close E localChan
                  (case as_client (ctx_Value sshContextSSHClient w1) of
                     (client, ok) \<Rightarrow>
                       if \<not> ok then post_error ''could not retrieve client from context'' w1
                       else
                         (case client of
                            None \<Rightarrow> Panics w1
                          | Some cl \<Rightarrow>
                              (let w2 = emit (EvOpenChannel cl (ChannelType newChan)
                                                (ExtraData newChan)) w1
                               in case open_channel_result E cl (ChannelType newChan)
                                         (ExtraData newChan) of
                                    Inl err \<Rightarrow>
                                      post_error (''failed to open remote channel: '' @ err) w2
                                  | Inr remoteChan \<Rightarrow>
                                      deferred_Close E remoteChan
                                        (forget_result
                                           (proxyChannel E localChan remoteChan sched w2)))))))"

subsection \<open>Reading a trace\<close>

fun is_open_channel :: "event \<Rightarrow> bool" where
  "is_open_channel (EvOpenChannel cl t d) = True"
| "is_open_channel _ = False"

fun is_error_sent :: "event \<Rightarrow> bool" where
  "is_error_sent (EvErrorSent m) = True"
| "is_error_sent _ = False"

fun is_close :: "event \<Rightarrow> bool" where
  "is_close (EvClientClose cl) = True"
| "is_close (EvConnClose c) = True"
| "is_close (EvChannelClose ch) = True"
| "is_close _ = False"

fun dialled_configs :: "event list \<Rightarrow> client_config list" where
  "dialled_configs [] = []"
| "dialled_configs (EvDial n a cfg # es) = cfg # dialled_configs es"
| "dialled_configs (e # es) = dialled_configs es"





subsection \<open>The invariant of the completion channel\<close>


subsection \<open>A concrete proxy, context and environment\<close>

text \<open>
  The proxy that \<open>New\<close> builds on Linux for version 1.0, the context of a user
  \<open>alice\<close> whose client announced OpenSSH 9.6, and an environment in which every call
  succeeds except the close of the outbound client.
\<close>

definition ex_proxy :: SSHProxy where
  "ex_proxy = \<lparr>server = \<lparr>Addr = '':2222'', MaxTimeout = 0, IdleTimeout = 0,
                           Version = ''SSH-2.0-tssh_1.0_linux'',
                           PublicKeyHandler = Some Method_proxyAuthCallback,
                           ConnCallback = Some Method_connCallback,
                           ChannelHandlers = [''default'' \<mapsto> Method_channelHandler]\<rparr>,
               hostname = ''gw'', shutdownC = make_chan 0, caCert = None,
               errorChan = make_chan 0\<rparr>"

definition ex_ctx :: ssh_context where
  "ex_ctx = \<lparr>ctx_values = Map.empty, ctx_User = ''alice'',
             ctx_ClientVersion = ''SSH-2.0-OpenSSH_9.6'',
             ctx_ServerVersion = ''SSH-2.0-tssh_1.0_linux''\<rparr>"

definition ex_world :: world where
  "ex_world = \<lparr>proxy = ex_proxy, ctx = ex_ctx, trace = []\<rparr>"

definition ex_env :: env where
  "ex_env = \<lparr>dial_result = (\<lambda>n a c. Inr 7),
             client_close_result = (\<lambda>c. Some ''use of closed network connection''),
             conn_close_result = (\<lambda>c. None),
             reject_result = (\<lambda>n. None),
             accept_result = (\<lambda>n. Inr 1),
             open_channel_result = (\<lambda>c t d. Inr 2),
             channel_close_result = (\<lambda>c. None),
             send_result = (\<lambda>c r. None),
             peer_reply = (\<lambda>c r. Inr True),
             ack_result = (\<lambda>r. None)\<rparr>"

section \<open>Properties\<close>

subsection \<open>Construction\<close>

text \<open>
  C9. Constructing the proxy never fails: for every version, local address, hostname, host
  key directory, shutdown channel, idle timeout and maximal timeout (and every value of
  \<open>runtime.GOOS\<close>), \<open>New\<close> returns a non-nil \<open>SSHProxy\<close> and a nil error.
\<close>

theorem New_never_fails:
  "fst (New goos version localAddress hostname' hostKeyDir shutdownC' idleTimeout maxTimeout) \<noteq> None
   \<and> snd (New goos version localAddress hostname' hostKeyDir shutdownC' idleTimeout maxTimeout) = None"
  by (simp add: New_def)

text \<open>
  The stub that replaces the package on Windows is another function, of another result
  type; it fails on every input.
\<close>

lemma New_windows_always_fails:
  "New_windows version localAddress hostname' hostKeyDir shutdownC' idleTimeout maxTimeout
     = (None, Some ''ssh proxy is not supported on windows'')"
  by (simp add: New_windows_def)

lemma New_ex:
  "New ''linux'' ''1.0'' '':2222'' ''gw'' ''/etc/keys'' (make_chan 0) 0 0 = (Some ex_proxy, None)"
  by (simp add: New_def ex_proxy_def)

subsection \<open>Closing the wrapped connection\<close>

lemma cleanup_trace:
  "trace (connCallback_cleanupFunc E w) =
     trace w @ (case ctx_values (ctx w) sshContextSSHClient of
                  Some (VClient (Some cl)) \<Rightarrow> [EvClientClose cl] | _ \<Rightarrow> [])"
  by (cases "ctx_values (ctx w) sshContextSSHClient" rule: as_client.cases)
     (simp_all add: connCallback_cleanupFunc_def ctx_Value_def Client_Close_def emit_def
           split: option.splits)

lemma cleanup_rest:
  "proxy (connCallback_cleanupFunc E w) = proxy w \<and> ctx (connCallback_cleanupFunc E w) = ctx w"
  by (cases "ctx_values (ctx w) sshContextSSHClient" rule: as_client.cases)
     (simp_all add: connCallback_cleanupFunc_def ctx_Value_def Client_Close_def emit_def
           split: option.splits)

text \<open>
  C1. Closing the connection that \<open>connCallback\<close> wrapped, in any world \<open>w\<close>, adds to
  the trace exactly: the close of the outbound client, once, if the context holds a
  non-nil client under \<open>sshClient\<close>, and nothing if it holds none; and then, last, the close
  of the underlying transport. So the cleanup runs once, inside \<open>Close\<close> and before the
  transport is closed, and without a stored client it does nothing.
\<close>

theorem sshConn_Close_cleanup_first:
  "trace (snd (sshConn_Close E (fst (connCallback E c w0)) w)) =
     trace w @ (case ctx_values (ctx w) sshContextSSHClient of
                  Some (VClient (Some cl)) \<Rightarrow> [EvClientClose cl] | _ \<Rightarrow> [])
             @ [EvConnClose c]"
  by (simp add: sshConn_Close_def connCallback_def Conn_Close_def emit_def cleanup_trace)

text \<open>
  C10. \<open>sshConn.Close\<close> returns what closing the underlying transport returns, whatever
  closing the outbound client returned inside the cleanup; the proxy, and with it the
  error channel, is left as it was, and no error is sent on it.
\<close>

theorem sshConn_Close_result:
  "fst (sshConn_Close E (fst (connCallback E c w0)) w) = conn_close_result E c
   \<and> proxy (snd (sshConn_Close E (fst (connCallback E c w0)) w)) = proxy w
   \<and> filter is_error_sent (trace (snd (sshConn_Close E (fst (connCallback E c w0)) w)))
       = filter is_error_sent (trace w)"
  by (simp add: sshConn_Close_def connCallback_def Conn_Close_def emit_def cleanup_trace cleanup_rest
           split: option.splits ctx_value.splits)

subsection \<open>Authentication\<close>

text \<open>
  Without a string under \<open>tailscaleDevice\<close> the destination is not resolved: the dial
  is not attempted.
\<close>

lemma dialDestination_unresolved:
  "as_string (ctx_values (ctx w) tailscaleDevice) = ([], False) \<Longrightarrow>
     dialDestination E w = (Inl ''failed to connect to server'', w)"
  by (simp add: dialDestination_def ctx_Value_def)

text \<open>
  C5. The claim is that an empty destination is rejected without a dial. The code at that
  input: \<open>connCallback\<close> stores the empty string under \<open>tailscaleDevice\<close>, the guard
  \<open>!ok && tailscaleServer == ""\<close> lets it pass, and authentication dials the empty
  address.
\<close>

theorem empty_destination_is_dialled:
  "trace (snd (proxyAuthCallback E key (snd (connCallback E c w0)))) =
     trace w0 @ [EvDial ''tcp'' [] \<lparr>User = ctx_User (ctx w0),
                                     HostKeyCallback = InsecureIgnoreHostKey,
                                     Auth = [PublicKeys [None]],
                                     ClientVersion = ctx_ServerVersion (ctx w0)\<rparr>]"
  by (simp add: proxyAuthCallback_def connCallback_def dialDestination_def ctx_Value_def
        ctx_SetValue_def emit_def Let_def split: sum.splits)

text \<open>
  C7, as the code has it. When the context holds a destination string, the outbound client
  is dialled once, over tcp, to that string, with the user name of the inbound connection
  and with the client version set to the context's server version, which is the version
  string of the proxy itself.
\<close>

theorem dialDestination_config:
  "ctx_values (ctx w) tailscaleDevice = Some (VString d) \<Longrightarrow>
     trace (snd (dialDestination E w)) =
       trace w @ [EvDial ''tcp'' d \<lparr>User = ctx_User (ctx w),
                                     HostKeyCallback = InsecureIgnoreHostKey,
                                     Auth = [PublicKeys [None]],
                                     ClientVersion = ctx_ServerVersion (ctx w)\<rparr>]"
  by (simp add: dialDestination_def ctx_Value_def emit_def Let_def split: sum.splits)

theorem dialDestination_config_witness:
  "ctx_values (ctx (ctx_SetValue tailscaleDevice (VString ''10.0.0.5:22'') ex_world)) tailscaleDevice
      = Some (VString ''10.0.0.5:22'')
   \<and> trace (snd (dialDestination ex_env
                    (ctx_SetValue tailscaleDevice (VString ''10.0.0.5:22'') ex_world))) =
       [EvDial ''tcp'' ''10.0.0.5:22'' \<lparr>User = ''alice'',
                                          HostKeyCallback = InsecureIgnoreHostKey,
                                          Auth = [PublicKeys [None]],
                                          ClientVersion = ''SSH-2.0-tssh_1.0_linux''\<rparr>]"
  using dialDestination_config
          [of "ctx_SetValue tailscaleDevice (VString ''10.0.0.5:22'') ex_world" "''10.0.0.5:22''" ex_env]
  by (simp add: ctx_SetValue_def ex_world_def ex_ctx_def)

text \<open>
  C7, as the claim states it, fails: for \<open>alice\<close>, whose client announced
  \<open>SSH-2.0-OpenSSH_9.6\<close>, the outbound client is dialled with the client version
  \<open>SSH-2.0-tssh_1.0_linux\<close>.
\<close>

theorem dialDestination_client_version_counterexample:
  "map ClientVersion (dialled_configs (trace (snd (dialDestination ex_env
       (ctx_SetValue tailscaleDevice (VString ''10.0.0.5:22'') ex_world)))))
     = [''SSH-2.0-tssh_1.0_linux'']
   \<and> ctx_ClientVersion (ctx (ctx_SetValue tailscaleDevice (VString ''10.0.0.5:22'') ex_world))
     = ''SSH-2.0-OpenSSH_9.6''"
  by (simp add: dialDestination_def ctx_Value_def emit_def ctx_SetValue_def ex_world_def ex_ctx_def
        ex_env_def tailscaleDevice_def Let_def)

subsection \<open>Forwarding one request\<close>

lemma request_rebuild:
  "\<lparr>Type = Type req, WantReply = WantReply req, Payload = Payload req\<rparr> = req"
  by (cases req) simp

lemma SendRequest_of_request:
  "Channel_SendRequest E ch (Type req) (WantReply req) (Payload req) w =
     ((case send_result E ch req of
         Some err \<Rightarrow> Inl err
       | None \<Rightarrow> if WantReply req then peer_reply E ch req else Inr False),
      emit (EvSendRequest ch (Type req) (WantReply req) (Payload req)) w)"
  by (simp add: Channel_SendRequest_def request_rebuild Let_def split: option.splits)

text \<open>
  C6. Forwarding a request sends it once on the other channel. If the request wants a
  reply and the peer answered, exactly one reply goes back to the original sender, with
  the success flag of the peer's answer; the answer to a channel request has no payload,
  and the reply is sent with none. If the request wants no reply, or the send or the
  peer's answer failed, no reply goes back.
\<close>

theorem forwardChannelRequest_reply:
  "trace (snd (forwardChannelRequest E ch req w)) =
     trace w @ EvSendRequest ch (Type req) (WantReply req) (Payload req) #
       (if WantReply req
        then (case send_result E ch req of
                Some err \<Rightarrow> []
              | None \<Rightarrow> (case peer_reply E ch req of
                           Inl err \<Rightarrow> []
                         | Inr ok \<Rightarrow> [EvReply req ok None]))
        else [])"
  by (simp add: forwardChannelRequest_def SendRequest_of_request Request_Reply_def emit_def
        split: option.splits sum.splits)

subsection \<open>Reporting an error\<close>

lemma post_error_opens:
  "filter is_open_channel (trace (outcome_world (post_error m w))) = filter is_open_channel (trace w)"
  by (simp add: post_error_def emit_def split: option.splits)

lemma post_error_closes:
  "filter is_close (trace (outcome_world (post_error m w))) = filter is_close (trace w)"
  by (simp add: post_error_def emit_def split: option.splits)

lemma post_error_ctx: "ctx (outcome_world (post_error m w)) = ctx w"
  by (simp add: post_error_def emit_def split: option.splits)

lemma post_error_trace:
  "\<exists>errs. trace (outcome_world (post_error m w)) = trace w @ errs \<and> list_all is_error_sent errs"
  by (simp add: post_error_def emit_def split: option.splits)

lemma post_error_Returns_opens:
  "post_error m w = Returns u w1 \<Longrightarrow>
     filter is_open_channel (trace w1) = filter is_open_channel (trace w)"
  using post_error_opens [of m w] by simp

text \<open>
  C3, as the claim states it, fails. The proxy is the one \<open>New\<close> builds; no consumer is
  receiving on \<open>Errors()\<close>; accepting a session channel fails. The handler does not
  return and the error is not dropped: it is parked in the send on the error channel.
\<close>

theorem post_error_blocks_counterexample:
  "New ''linux'' ''1.0'' '':2222'' ''gw'' ''/etc/keys'' (make_chan 0) 0 0 = (Some ex_proxy, None)
   \<and> channelHandler (ex_env\<lparr>accept_result := (\<lambda>n. Inl ''EOF'')\<rparr>)
         \<lparr>ChannelType = ''session'', ExtraData = []\<rparr> [] ex_world
       = Blocks Wait_errorChan
           (ex_world\<lparr>trace := [EvAccept \<lparr>ChannelType = ''session'', ExtraData = []\<rparr>]\<rparr>)"
  by (simp add: New_def ex_proxy_def channelHandler_def ex_env_def ex_world_def emit_def
        post_error_def chan_send_def make_chan_def)

text \<open>
  C3, as the code has it. The error channel of a proxy built by \<open>New\<close> has no buffer.
  Reporting an error is a plain send on it: with a consumer already parked in a receive on
  \<open>Errors()\<close> the send completes and the error is delivered; with none, the reporting
  task is parked until a consumer comes, and nothing is dropped.
\<close>

theorem post_error_needs_consumer:
  assumes "fst (New goos version localAddress hostname' hostKeyDir shutdownC' idleTimeout maxTimeout)
             = Some p"
      and "errorChan (proxy w) = (errorChan p)\<lparr>chan_recvq := n\<rparr>"
  shows "post_error msg w =
           (if n = 0 then Blocks Wait_errorChan w
            else Returns ()
                   (emit (EvErrorSent msg)
                      (w\<lparr>proxy := (proxy w)\<lparr>errorChan := (errorChan p)\<lparr>chan_recvq := n - 1\<rparr>\<rparr>\<rparr>)))"
proof -
  from assms(1) have "errorChan p = make_chan 0"
    by (auto simp: New_def)
  with assms(2) show ?thesis
    by (simp add: post_error_def chan_send_def make_chan_def)
qed

theorem post_error_needs_consumer_witness:
  "fst (New ''linux'' ''1.0'' '':2222'' ''gw'' ''/etc/keys'' (make_chan 0) 0 0) = Some ex_proxy
   \<and> errorChan (proxy (Errors_receive ex_world)) = (errorChan ex_proxy)\<lparr>chan_recvq := 1\<rparr>
   \<and> post_error ''remote to local copy error: EOF'' (Errors_receive ex_world)
       = Returns () (ex_world\<lparr>trace := [EvErrorSent ''remote to local copy error: EOF'']\<rparr>)"
proof -
  have a: "fst (New ''linux'' ''1.0'' '':2222'' ''gw'' ''/etc/keys'' (make_chan 0) 0 0) = Some ex_proxy"
    by (simp add: New_def ex_proxy_def)
  have b: "errorChan (proxy (Errors_receive ex_world)) = (errorChan ex_proxy)\<lparr>chan_recvq := 1\<rparr>"
    by (simp add: Errors_receive_def ex_world_def chan_park_receiver_def ex_proxy_def make_chan_def)
  from post_error_needs_consumer [OF a b, of "''remote to local copy error: EOF''"] a b
  show ?thesis
    by (simp add: Errors_receive_def ex_world_def chan_park_receiver_def ex_proxy_def
          make_chan_def emit_def)
qed

subsection \<open>Accepting a channel\<close>

lemma forward_opens:
  "filter is_open_channel (trace (snd (forwardChannelRequest E ch req w)))
     = filter is_open_channel (trace w)"
  by (simp add: forwardChannelRequest_def Channel_SendRequest_def Request_Reply_def emit_def
        Let_def split: option.splits sum.splits)

lemma loop_request_opens:
  "filter is_open_channel (trace (snd (loop_request E target rq (b, w))))
     = filter is_open_channel (trace w)"
proof (cases rq)
  case None
  then show ?thesis by (simp add: loop_request_def)
next
  case (Some req)
  obtain r w1 where f: "forwardChannelRequest E target req w = (r, w1)"
    by (cases "forwardChannelRequest E target req w")
  with forward_opens [of E target req w]
  have "filter is_open_channel (trace w1) = filter is_open_channel (trace w)" by simp
  with Some f show ?thesis by (simp add: loop_request_def split: option.splits)
qed

lemma bridge_step_opens:
  "filter is_open_channel (trace (snd (bridge_step E l r ev (b, w))))
     = filter is_open_channel (trace w)"
proof (cases ev)
  case (Step t)
  then show ?thesis
    by (auto simp: emit_def split: pc.splits outcome.splits option.splits
          dest: post_error_Returns_opens)
next
  case Consumer_receives
  then show ?thesis by (simp add: Errors_receive_def)
qed (simp_all add: loop_request_opens split: option.splits)

lemma proxyChannelStreams_opens:
  "filter is_open_channel (trace (outcome_world (proxyChannelStreams E l r sched (b, w))))
     = filter is_open_channel (trace w)"
proof (induction sched arbitrary: b w)
  case Nil
  then show ?case by (simp split: pc.splits)
next
  case (Cons ev evs)
  obtain b1 w1 where s: "bridge_step E l r ev (b, w) = (b1, w1)"
    by (cases "bridge_step E l r ev (b, w)")
  with bridge_step_opens [of E l r ev b w]
  have "filter is_open_channel (trace w1) = filter is_open_channel (trace w)" by simp
  with Cons.IH [of b1 w1] s show ?case by simp
qed

lemma forget_result_world: "outcome_world (forget_result out) = outcome_world out"
  by (cases out) simp_all

lemma deferred_Close_opens:
  "filter is_open_channel (trace (outcome_world (deferred_Close E ch out)))
     = filter is_open_channel (trace (outcome_world out))"
  by (cases out) (simp_all add: Channel_Close_def emit_def)

lemma proxyChannel_opens:
  "filter is_open_channel (trace (outcome_world (proxyChannel E l r sched w)))
     = filter is_open_channel (trace w)"
  by (simp add: proxyChannel_def proxyChannelStreams_opens)

lemma deferred_Close_closes_ctx:
  "ctx (outcome_world (deferred_Close E ch out)) = ctx (outcome_world out)"
  by (cases out) (simp_all add: Channel_Close_def emit_def)

lemma channelHandler_accepted:
  assumes "ChannelType nc = ''session'' \<or> ChannelType nc = ''direct-tcpip''"
      and "accept_result E nc = Inr lc"
      and "ctx_values (ctx w) sshContextSSHClient = Some (VClient (Some cl))"
  shows "channelHandler E nc sched w =
           deferred_Close E lc
             (case open_channel_result E cl (ChannelType nc) (ExtraData nc) of
                Inl err \<Rightarrow>
                  post_error (''failed to open remote channel: '' @ err)
                    (emit (EvOpenChannel cl (ChannelType nc) (ExtraData nc)) (emit (EvAccept nc) w))
              | Inr rc \<Rightarrow>
                  deferred_Close E rc
                    (forget_result
                       (proxyChannel E lc rc sched
                          (emit (EvOpenChannel cl (ChannelType nc) (ExtraData nc))
                             (emit (EvAccept nc) w)))))"
proof -
  have t: "\<not> (ChannelType nc \<noteq> ''session'' \<and> ChannelType nc \<noteq> ''direct-tcpip'')"
    using assms(1) by blast
  have c: "as_client (ctx_Value sshContextSSHClient (emit (EvAccept nc) w)) = (Some cl, True)"
    using assms(3) by (simp add: ctx_Value_def emit_def)
  show ?thesis
    using assms(2) c by (simp add: channelHandler_def t Let_def)
qed

lemma accepted_opens:
  "filter is_open_channel (trace (outcome_world
      (deferred_Close E lc
         (case res of
            Inl err \<Rightarrow> post_error (pre @ err) w2
          | Inr rc \<Rightarrow> deferred_Close E rc (forget_result (proxyChannel E lc rc sched w2))))))
     = filter is_open_channel (trace w2)"
  by (cases res)
     (simp_all add: deferred_Close_opens post_error_opens forget_result_world proxyChannel_opens)

text \<open>
  C2. When a channel-open request of type \<open>session\<close> or \<open>direct-tcpip\<close> is accepted
  and the context holds the outbound client, the handler opens exactly one channel on that
  client, whatever the schedule of the bridge and whatever the calls return: the open
  events of the trace grow by one, which carries the type and the extra data of the request.
\<close>

theorem channelHandler_mirrors_channel:
  assumes "ChannelType nc = ''session'' \<or> ChannelType nc = ''direct-tcpip''"
      and "accept_result E nc = Inr lc"
      and "ctx_values (ctx w) sshContextSSHClient = Some (VClient (Some cl))"
  shows "filter is_open_channel (trace (outcome_world (channelHandler E nc sched w)))
           = filter is_open_channel (trace w) @ [EvOpenChannel cl (ChannelType nc) (ExtraData nc)]"
  by (simp add: channelHandler_accepted [OF assms] accepted_opens) (simp add: emit_def)

theorem channelHandler_mirrors_channel_witness:
  "(ChannelType \<lparr>ChannelType = ''session'', ExtraData = [1, 2]\<rparr> = ''session''
      \<or> ChannelType \<lparr>ChannelType = ''session'', ExtraData = [1, 2]\<rparr> = ''direct-tcpip'')
   \<and> accept_result ex_env \<lparr>ChannelType = ''session'', ExtraData = [1, 2]\<rparr> = Inr 1
   \<and> ctx_values (ctx (ctx_SetValue sshContextSSHClient (VClient (Some 7)) ex_world))
         sshContextSSHClient = Some (VClient (Some 7))
   \<and> filter is_open_channel (trace (outcome_world
         (channelHandler ex_env \<lparr>ChannelType = ''session'', ExtraData = [1, 2]\<rparr>
            [Select_localChanReqs None]
            (ctx_SetValue sshContextSSHClient (VClient (Some 7)) ex_world))))
       = [EvOpenChannel 7 ''session'' [1, 2]]"
  using channelHandler_mirrors_channel
          [where nc = "\<lparr>ChannelType = ''session'', ExtraData = [1, 2]\<rparr>" and E = ex_env
             and lc = 1 and cl = 7 and sched = "[Select_localChanReqs None]"
             and w = "ctx_SetValue sshContextSSHClient (VClient (Some 7)) ex_world"]
  by (simp add: ex_env_def ex_world_def ex_ctx_def ctx_SetValue_def)

text \<open>
  C8. A channel-open request of any other type is rejected with the reason
  \<open>UnknownChannelType\<close> and a message that holds the requested type; after the
  rejection the handler does nothing but, if the rejection failed, send that error. No
  channel is opened, nothing is closed and the context is as before, so that a later
  request of a supported type, once accepted, still gets its channel on the stored client.
\<close>

theorem channelHandler_rejects_unknown_type:
  assumes "ChannelType nc \<noteq> ''session''" and "ChannelType nc \<noteq> ''direct-tcpip''"
  shows "(\<exists>errs. trace (outcome_world (channelHandler E nc sched w)) =
            trace w @ EvReject nc UnknownChannelType
                        (''channel type '' @ ChannelType nc @ '' is not supported'') # errs
            \<and> list_all is_error_sent errs)
       \<and> filter is_open_channel (trace (outcome_world (channelHandler E nc sched w)))
           = filter is_open_channel (trace w)
       \<and> filter is_close (trace (outcome_world (channelHandler E nc sched w)))
           = filter is_close (trace w)
       \<and> ctx (outcome_world (channelHandler E nc sched w)) = ctx w
       \<and> ((ChannelType nc' = ''session'' \<or> ChannelType nc' = ''direct-tcpip'')
            \<and> accept_result E nc' = Inr lc
            \<and> ctx_values (ctx w) sshContextSSHClient = Some (VClient (Some cl))
          \<longrightarrow> EvOpenChannel cl (ChannelType nc') (ExtraData nc')
                \<in> set (trace (outcome_world
                      (channelHandler E nc' sched' (outcome_world (channelHandler E nc sched w))))))"
proof -
  let ?msg = "''channel type '' @ ChannelType nc @ '' is not supported''"
  let ?w1 = "emit (EvReject nc UnknownChannelType ?msg) w"
  let ?out = "channelHandler E nc sched w"
  have h: "?out = (case reject_result E nc of
                     Some err \<Rightarrow> post_error (''error rejecting SSH channel: '' @ err) ?w1
                   | None \<Rightarrow> Returns () ?w1)"
    using assms by (simp add: channelHandler_def Let_def split: option.splits)
  have a: "\<exists>errs. trace (outcome_world ?out) = trace w @ EvReject nc UnknownChannelType ?msg # errs
             \<and> list_all is_error_sent errs"
  proof (cases "reject_result E nc")
    case None
    with h show ?thesis by (simp add: emit_def)
  next
    case (Some err)
    from post_error_trace [of "''error rejecting SSH channel: '' @ err" ?w1]
    obtain errs where "trace (outcome_world (post_error (''error rejecting SSH channel: '' @ err) ?w1))
                         = trace ?w1 @ errs" and "list_all is_error_sent errs"
      by blast
    with h Some show ?thesis by (simp add: emit_def)
  qed
  have b: "filter is_open_channel (trace (outcome_world ?out)) = filter is_open_channel (trace w)"
    using h by (cases "reject_result E nc") (simp_all add: post_error_opens emit_def)
  have c: "filter is_close (trace (outcome_world ?out)) = filter is_close (trace w)"
    using h by (cases "reject_result E nc") (simp_all add: post_error_closes emit_def)
  have d: "ctx (outcome_world ?out) = ctx w"
    using h by (cases "reject_result E nc") (simp_all add: post_error_ctx emit_def)
  have e: "EvOpenChannel cl (ChannelType nc') (ExtraData nc')
             \<in> set (trace (outcome_world (channelHandler E nc' sched' (outcome_world ?out))))"
    if s: "ChannelType nc' = ''session'' \<or> ChannelType nc' = ''direct-tcpip''"
      and acc: "accept_result E nc' = Inr lc"
      and cli: "ctx_values (ctx w) sshContextSSHClient = Some (VClient (Some cl))"
  proof -
    let ?w' = "outcome_world ?out"
    from cli d have cli': "ctx_values (ctx ?w') sshContextSSHClient = Some (VClient (Some cl))"
      by simp
    have "filter is_open_channel (trace (outcome_world (channelHandler E nc' sched' ?w')))
            = filter is_open_channel (trace ?w') @ [EvOpenChannel cl (ChannelType nc') (ExtraData nc')]"
      by (simp add: channelHandler_accepted [OF s acc cli'] accepted_opens) (simp add: emit_def)
    then have "EvOpenChannel cl (ChannelType nc') (ExtraData nc')
                 \<in> set (filter is_open_channel (trace (outcome_world (channelHandler E nc' sched' ?w'))))"
      by simp
    then show ?thesis by simp
  qed
  from a b c d e show ?thesis by blast
qed

theorem channelHandler_rejects_unknown_type_witness:
  "ChannelType \<lparr>ChannelType = ''x11'', ExtraData = []\<rparr> \<noteq> ''session''
   \<and> ChannelType \<lparr>ChannelType = ''x11'', ExtraData = []\<rparr> \<noteq> ''direct-tcpip''
   \<and> trace (outcome_world (channelHandler ex_env \<lparr>ChannelType = ''x11'', ExtraData = []\<rparr> []
              (ctx_SetValue sshContextSSHClient (VClient (Some 7)) ex_world)))
       = [EvReject \<lparr>ChannelType = ''x11'', ExtraData = []\<rparr> UnknownChannelType
            ''channel type x11 is not supported'']
   \<and> EvOpenChannel 7 ''session'' [1, 2]
       \<in> set (trace (outcome_world
             (channelHandler ex_env \<lparr>ChannelType = ''session'', ExtraData = [1, 2]\<rparr>
                [Select_localChanReqs None]
                (outcome_world (channelHandler ex_env \<lparr>ChannelType = ''x11'', ExtraData = []\<rparr> []
                   (ctx_SetValue sshContextSSHClient (VClient (Some 7)) ex_world))))))"
proof -
  let ?nc = "\<lparr>ChannelType = ''x11'', ExtraData = []\<rparr>"
  let ?nc2 = "\<lparr>ChannelType = ''session'', ExtraData = [1, 2]\<rparr>"
  let ?w = "ctx_SetValue sshContextSSHClient (VClient (Some 7)) ex_world"
  have h1: "ChannelType ?nc \<noteq> ''session''" and h2: "ChannelType ?nc \<noteq> ''direct-tcpip''"
    by simp_all
  have t: "trace (outcome_world (channelHandler ex_env ?nc [] ?w))
             = [EvReject ?nc UnknownChannelType ''channel type x11 is not supported'']"
    by (simp add: channelHandler_def ex_env_def ex_world_def ctx_SetValue_def emit_def)
  have p: "(ChannelType ?nc2 = ''session'' \<or> ChannelType ?nc2 = ''direct-tcpip'')
           \<and> accept_result ex_env ?nc2 = Inr 1
           \<and> ctx_values (ctx ?w) sshContextSSHClient = Some (VClient (Some 7))"
    by (simp add: ex_env_def ctx_SetValue_def)
  from channelHandler_rejects_unknown_type
         [OF h1 h2, where E = ex_env and sched = "[]" and w = ?w and nc' = ?nc2 and lc = 1
            and cl = 7 and sched' = "[Select_localChanReqs None]"] p
  have "EvOpenChannel 7 (ChannelType ?nc2) (ExtraData ?nc2)
          \<in> set (trace (outcome_world (channelHandler ex_env ?nc2 [Select_localChanReqs None]
                  (outcome_world (channelHandler ex_env ?nc [] ?w)))))"
    by blast
  with h1 h2 t show ?thesis by simp
qed

subsection \<open>The completion signal\<close>





















end
